theory Spec2Isabelle
  imports Complex_Main "HOL-Library.Sublist"
begin

section \<open>JavaScript numbers\<close>

text \<open>
  The program computes with JavaScript numbers. They are modelled as the reals extended
  with the two infinities and NaN: a finite double is taken as the real it denotes
  (rounding and the sign of zero are not modelled), and the non-finite results of the
  operators (\<open>x / 0\<close>, \<open>0 / 0\<close>, \<open>Infinity - Infinity\<close>, comparisons with NaN) are
  written out as ECMAScript defines them. A zero divisor in this program is the result
  of \<open>Math.sqrt\<close>, hence \<open>+0\<close>.
\<close>

datatype jsnum = Num real | PInf | NInf | NaN

fun js_lt :: "jsnum \<Rightarrow> jsnum \<Rightarrow> bool" where
  "js_lt (Num a) (Num b) = (a < b)"
| "js_lt NaN _ = False"
| "js_lt _ NaN = False"
| "js_lt PInf _ = False"
| "js_lt _ NInf = False"
| "js_lt NInf _ = True"
| "js_lt (Num a) PInf = True"

definition js_gt :: "jsnum \<Rightarrow> jsnum \<Rightarrow> bool" where
  "js_gt a b = js_lt b a"

definition js_le :: "jsnum \<Rightarrow> jsnum \<Rightarrow> bool" where
  "js_le a b = (a \<noteq> NaN \<and> b \<noteq> NaN \<and> \<not> js_lt b a)"

definition js_ge :: "jsnum \<Rightarrow> jsnum \<Rightarrow> bool" where
  "js_ge a b = js_le b a"

fun js_neg :: "jsnum \<Rightarrow> jsnum" where
  "js_neg (Num a) = Num (- a)"
| "js_neg PInf = NInf"
| "js_neg NInf = PInf"
| "js_neg NaN = NaN"

fun js_add :: "jsnum \<Rightarrow> jsnum \<Rightarrow> jsnum" where
  "js_add (Num a) (Num b) = Num (a + b)"
| "js_add NaN _ = NaN"
| "js_add _ NaN = NaN"
| "js_add PInf NInf = NaN"
| "js_add NInf PInf = NaN"
| "js_add PInf _ = PInf"
| "js_add NInf _ = NInf"
| "js_add (Num a) PInf = PInf"
| "js_add (Num a) NInf = NInf"

definition js_sub :: "jsnum \<Rightarrow> jsnum \<Rightarrow> jsnum" where
  "js_sub a b = js_add a (js_neg b)"

text \<open>The sign of an infinite product or quotient: \<open>inf_of True\<close> is \<open>+Infinity\<close>.\<close>

definition inf_of :: "bool \<Rightarrow> jsnum" where
  "inf_of positive = (if positive then PInf else NInf)"

fun js_mul :: "jsnum \<Rightarrow> jsnum \<Rightarrow> jsnum" where
  "js_mul (Num a) (Num b) = Num (a * b)"
| "js_mul NaN _ = NaN"
| "js_mul _ NaN = NaN"
| "js_mul PInf (Num b) = (if b = 0 then NaN else inf_of (0 < b))"
| "js_mul NInf (Num b) = (if b = 0 then NaN else inf_of (b < 0))"
| "js_mul (Num a) PInf = (if a = 0 then NaN else inf_of (0 < a))"
| "js_mul (Num a) NInf = (if a = 0 then NaN else inf_of (a < 0))"
| "js_mul PInf PInf = PInf"
| "js_mul PInf NInf = NInf"
| "js_mul NInf PInf = NInf"
| "js_mul NInf NInf = PInf"

fun js_div :: "jsnum \<Rightarrow> jsnum \<Rightarrow> jsnum" where
  "js_div (Num a) (Num b) =
     (if b \<noteq> 0 then Num (a / b)
      else if 0 < a then PInf
      else if a < 0 then NInf
      else NaN)"
| "js_div NaN _ = NaN"
| "js_div _ NaN = NaN"
| "js_div (Num a) PInf = Num 0"
| "js_div (Num a) NInf = Num 0"
| "js_div PInf (Num b) = inf_of (0 \<le> b)"
| "js_div NInf (Num b) = inf_of (b < 0)"
| "js_div PInf PInf = NaN"
| "js_div PInf NInf = NaN"
| "js_div NInf PInf = NaN"
| "js_div NInf NInf = NaN"

text \<open>\<open>Math.max\<close> and \<open>Math.min\<close> of two arguments: NaN as soon as one argument is NaN.\<close>

definition js_max :: "jsnum \<Rightarrow> jsnum \<Rightarrow> jsnum" where
  "js_max a b = (if a = NaN \<or> b = NaN then NaN else if js_lt a b then b else a)"

definition js_min :: "jsnum \<Rightarrow> jsnum \<Rightarrow> jsnum" where
  "js_min a b = (if a = NaN \<or> b = NaN then NaN else if js_lt b a then b else a)"

fun js_sqrt :: "jsnum \<Rightarrow> jsnum" where
  "js_sqrt (Num a) = (if a < 0 then NaN else Num (sqrt a))"
| "js_sqrt PInf = PInf"
| "js_sqrt NInf = NaN"
| "js_sqrt NaN = NaN"

text \<open>\<open>Math.atan2 (y, x)\<close>: the angle of the point \<open>(x, y)\<close>, in \<open>(-\<pi>, \<pi>]\<close>.\<close>

definition atan2_real :: "real \<Rightarrow> real \<Rightarrow> real" where
  "atan2_real y x =
     (if 0 < x then arctan (y / x)
      else if x < 0 then (if 0 \<le> y then arctan (y / x) + pi else arctan (y / x) - pi)
      else if 0 < y then pi / 2
      else if y < 0 then - (pi / 2)
      else 0)"

fun js_atan2 :: "jsnum \<Rightarrow> jsnum \<Rightarrow> jsnum" where
  "js_atan2 (Num y) (Num x) = Num (atan2_real y x)"
| "js_atan2 NaN _ = NaN"
| "js_atan2 _ NaN = NaN"
| "js_atan2 (Num y) PInf = Num 0"
| "js_atan2 (Num y) NInf = (if 0 \<le> y then Num pi else Num (- pi))"
| "js_atan2 PInf (Num x) = Num (pi / 2)"
| "js_atan2 NInf (Num x) = Num (- (pi / 2))"
| "js_atan2 PInf PInf = Num (pi / 4)"
| "js_atan2 PInf NInf = Num (3 * pi / 4)"
| "js_atan2 NInf PInf = Num (- (pi / 4))"
| "js_atan2 NInf NInf = Num (- (3 * pi / 4))"


section \<open>three.js values\<close>

text \<open>
  The classes of three.js that the program reads and writes: \<open>Vector3\<close>, \<open>Euler\<close>,
  \<open>Box3\<close> and the transform of an \<open>Object3D\<close> (position, rotation, scale).
\<close>

record vector3 =
  vx :: jsnum
  vy :: jsnum
  vz :: jsnum

record euler =
  ex :: jsnum
  ey :: jsnum
  ez :: jsnum
  order :: string

record box3 =
  min_box :: vector3
  max_box :: vector3

record object3d =
  position :: vector3
  rotation :: euler
  scale :: vector3

definition vec3 :: "jsnum \<Rightarrow> jsnum \<Rightarrow> jsnum \<Rightarrow> vector3" where
  "vec3 a b c = \<lparr>vx = a, vy = b, vz = c\<rparr>"

text \<open>\<open>Vector3.sub (v)\<close>: componentwise subtraction.\<close>

definition vec_sub :: "vector3 \<Rightarrow> vector3 \<Rightarrow> vector3" where
  "vec_sub a v = \<lparr>vx = js_sub (vx a) (vx v), vy = js_sub (vy a) (vy v), vz = js_sub (vz a) (vz v)\<rparr>"

text \<open>\<open>Vector3.distanceTo (v)\<close>: \<open>Math.sqrt (dx * dx + dy * dy + dz * dz)\<close>.\<close>

definition distanceTo :: "vector3 \<Rightarrow> vector3 \<Rightarrow> jsnum" where
  "distanceTo a v =
     (let dx = js_sub (vx a) (vx v); dy = js_sub (vy a) (vy v); dz = js_sub (vz a) (vz v)
      in js_sqrt (js_add (js_add (js_mul dx dx) (js_mul dy dy)) (js_mul dz dz)))"

text \<open>\<open>Box3.isEmpty\<close> and \<open>Box3.getCenter\<close>: the centre of an empty box is the origin.\<close>

definition isEmpty :: "box3 \<Rightarrow> bool" where
  "isEmpty b =
     (js_lt (vx (max_box b)) (vx (min_box b)) \<or> js_lt (vy (max_box b)) (vy (min_box b))
      \<or> js_lt (vz (max_box b)) (vz (min_box b)))"

definition getCenter :: "box3 \<Rightarrow> vector3" where
  "getCenter b =
     (if isEmpty b then vec3 (Num 0) (Num 0) (Num 0)
      else \<lparr>vx = js_mul (js_add (vx (min_box b)) (vx (max_box b))) (Num 0.5),
            vy = js_mul (js_add (vy (min_box b)) (vy (max_box b))) (Num 0.5),
            vz = js_mul (js_add (vz (min_box b)) (vz (max_box b))) (Num 0.5)\<rparr>)"

text \<open>
  \<open>Box3.intersectsBox (box)\<close>: the six comparisons of three.js; boxes that only touch
  intersect. (Older releases return the negation of the six opposite comparisons, which is
  the same on boxes without NaN.)
\<close>

definition intersectsBox :: "box3 \<Rightarrow> box3 \<Rightarrow> bool" where
  "intersectsBox this box =
     (js_ge (vx (max_box box)) (vx (min_box this)) \<and> js_le (vx (min_box box)) (vx (max_box this))
      \<and> js_ge (vy (max_box box)) (vy (min_box this)) \<and> js_le (vy (min_box box)) (vy (max_box this))
      \<and> js_ge (vz (max_box box)) (vz (min_box this)) \<and> js_le (vz (min_box box)) (vz (max_box this)))"


section \<open>The room configurator\<close>

text \<open>
  The module state of the room configurator: the product (\<open>currentModel\<close>, \<open>null\<close> until
  it is loaded), the obstacle box (\<open>almirahBox\<close>, \<open>null\<close> until a mesh of that name is
  found), the scratch box \<open>boxHelper\<close> and the last valid position and rotation.
\<close>

record limits =
  minX :: jsnum
  maxX :: jsnum
  minZ :: jsnum
  maxZ :: jsnum

definition roomLimits :: limits where
  "roomLimits = \<lparr>minX = Num (- 3.25), maxX = Num 3.25, minZ = Num (- 3.92), maxZ = Num 2.8\<rparr>"

record room_state =
  currentModel_rc :: "object3d option"
  almirahBox :: "box3 option"
  boxHelper :: box3
  lastValidPosition :: vector3
  lastValidRotation :: euler

text \<open>The two tests of the \<open>change\<close> listener, as the source names them.\<close>

definition isOutside :: "box3 \<Rightarrow> bool" where
  "isOutside b =
     (js_lt (vx (min_box b)) (minX roomLimits) \<or> js_gt (vx (max_box b)) (maxX roomLimits)
      \<or> js_lt (vz (min_box b)) (minZ roomLimits) \<or> js_gt (vz (max_box b)) (maxZ roomLimits))"

definition hitsAlmirah :: "box3 option \<Rightarrow> box3 \<Rightarrow> bool" where
  "hitsAlmirah ab b = (case ab of Some a \<Rightarrow> intersectsBox b a | None \<Rightarrow> False)"

text \<open>
  The \<open>change\<close> listener of the transform gizmo. \<open>setFromObject\<close> is
  \<open>Box3.setFromObject\<close>: the world-space bounding box of the object under its current
  transform, which depends on the geometry of the loaded asset.
\<close>

definition onChange :: "(object3d \<Rightarrow> box3) \<Rightarrow> room_state \<Rightarrow> room_state" where
  "onChange setFromObject s =
     (case currentModel_rc s of
        None \<Rightarrow> s
      | Some m \<Rightarrow>
          let b = setFromObject m;
              s1 = s\<lparr>boxHelper := b\<rparr>
          in if isOutside b \<or> hitsAlmirah (almirahBox s1) b
             then s1\<lparr>currentModel_rc :=
                       Some (m\<lparr>position := lastValidPosition s1, rotation := lastValidRotation s1\<rparr>)\<rparr>
             else s1\<lparr>lastValidPosition := position m, lastValidRotation := rotation m\<rparr>)"

text \<open>
  One update of a gizmo drag: the gizmo writes the proposed position and rotation to the
  object and dispatches \<open>change\<close>.
\<close>

definition propose :: "vector3 \<Rightarrow> euler \<Rightarrow> room_state \<Rightarrow> room_state" where
  "propose p r s =
     (case currentModel_rc s of
        None \<Rightarrow> s
      | Some m \<Rightarrow> s\<lparr>currentModel_rc := Some (m\<lparr>position := p, rotation := r\<rparr>)\<rparr>)"

definition gizmoFrame :: "(object3d \<Rightarrow> box3) \<Rightarrow> vector3 \<Rightarrow> euler \<Rightarrow> room_state \<Rightarrow> room_state" where
  "gizmoFrame setFromObject p r s = onChange setFromObject (propose p r s)"

text \<open>
  \<open>String.prototype.includes\<close>: the second string occurs somewhere in the first
  (case-sensitive).
\<close>

fun str_includes :: "string \<Rightarrow> string \<Rightarrow> bool" where
  "str_includes [] sub = (sub = [])"
| "str_includes (c # cs) sub = (prefix sub (c # cs) \<or> str_includes cs sub)"

text \<open>
  A node of the loaded room, as \<open>traverse\<close> visits it: whether it is a mesh, its name
  and its world-space bounding box (what \<open>new Box3 ().setFromObject (child)\<close> gives).
\<close>

record scene_node =
  isMesh :: bool
  name :: string
  world_box :: box3

text \<open>
  The callback of \<open>loadCustomRoom\<close>, on the nodes of the room in traversal order. Of the
  body of the traversal only the obstacle search writes collision state; the wall and
  floor materials it also sets are no part of this state.
\<close>

definition visitRoomChild :: "scene_node \<Rightarrow> room_state \<Rightarrow> room_state" where
  "visitRoomChild child s =
     (if isMesh child \<and> str_includes (name child) ''Almirah''
      then s\<lparr>almirahBox := Some (world_box child)\<rparr>
      else s)"

definition loadCustomRoom :: "scene_node list \<Rightarrow> room_state \<Rightarrow> room_state" where
  "loadCustomRoom room s = fold visitRoomChild room s"

text \<open>
  The success callback of \<open>loadProduct\<close> on the loaded object: centre it, pin it to the
  floor, and save its position and rotation as the first valid state.
\<close>

definition centerModel :: "(object3d \<Rightarrow> box3) \<Rightarrow> object3d \<Rightarrow> object3d" where
  "centerModel setFromObject g =
     (let center = getCenter (setFromObject g);
          p = vec_sub (position g) center
      in g\<lparr>position := p\<lparr>vy := Num 0\<rparr>\<rparr>)"

definition loadProduct :: "(object3d \<Rightarrow> box3) \<Rightarrow> object3d \<Rightarrow> room_state \<Rightarrow> room_state" where
  "loadProduct setFromObject g s =
     (let m = centerModel setFromObject g
      in s\<lparr>currentModel_rc := Some m,
           lastValidPosition := position m,
           lastValidRotation := rotation m\<rparr>)"

text \<open>The state of the module before any asset has loaded.\<close>

definition zero_vector :: vector3 where
  "zero_vector = vec3 (Num 0) (Num 0) (Num 0)"

definition default_euler :: euler where
  "default_euler = \<lparr>ex = Num 0, ey = Num 0, ez = Num 0, order = ''XYZ''\<rparr>"

definition empty_box :: box3 where
  "empty_box = \<lparr>min_box = vec3 PInf PInf PInf, max_box = vec3 NInf NInf NInf\<rparr>"

definition room_init :: room_state where
  "room_init =
     \<lparr>currentModel_rc = None, almirahBox = None, boxHelper = empty_box,
      lastValidPosition = zero_vector, lastValidRotation = default_euler\<rparr>"

text \<open>
  What happens to the room configurator after the product has loaded: gizmo updates, and
  the room asset arriving (its load is asynchronous).
\<close>

datatype room_event = Propose vector3 euler | RoomLoaded "scene_node list"

fun room_step :: "(object3d \<Rightarrow> box3) \<Rightarrow> room_event \<Rightarrow> room_state \<Rightarrow> room_state" where
  "room_step f (Propose p r) s = gizmoFrame f p r s"
| "room_step f (RoomLoaded room) s = loadCustomRoom room s"

definition room_run :: "(object3d \<Rightarrow> box3) \<Rightarrow> room_event list \<Rightarrow> room_state \<Rightarrow> room_state" where
  "room_run f evs s = fold (room_step f) evs s"

text \<open>
  The verdict of the validator on a proposed position and rotation in a state: the
  recomputed box is inside the room limits and misses the obstacle.
\<close>

definition passes :: "(object3d \<Rightarrow> box3) \<Rightarrow> room_state \<Rightarrow> vector3 \<Rightarrow> euler \<Rightarrow> bool" where
  "passes f s p r =
     (case currentModel_rc s of
        None \<Rightarrow> False
      | Some m \<Rightarrow>
          let b = f (m\<lparr>position := p, rotation := r\<rparr>)
          in \<not> isOutside b \<and> \<not> hitsAlmirah (almirahBox s) b)"

text \<open>
  The rejection rule in the words of the specification: a face of the box beyond the room
  limits on a horizontal axis, or the intervals of the box and of the obstacle overlapping
  on all three axes.
\<close>

definition intervals_overlap :: "jsnum \<Rightarrow> jsnum \<Rightarrow> jsnum \<Rightarrow> jsnum \<Rightarrow> bool" where
  "intervals_overlap lo1 hi1 lo2 hi2 = (js_le lo1 hi2 \<and> js_le lo2 hi1)"

definition spec_rejects :: "limits \<Rightarrow> box3 option \<Rightarrow> box3 \<Rightarrow> bool" where
  "spec_rejects rl obstacle b =
     (js_lt (vx (min_box b)) (minX rl) \<or> js_gt (vx (max_box b)) (maxX rl)
      \<or> js_lt (vz (min_box b)) (minZ rl) \<or> js_gt (vz (max_box b)) (maxZ rl)
      \<or> (case obstacle of
            None \<Rightarrow> False
          | Some a \<Rightarrow>
              intervals_overlap (vx (min_box b)) (vx (max_box b)) (vx (min_box a)) (vx (max_box a))
              \<and> intervals_overlap (vy (min_box b)) (vy (max_box b)) (vy (min_box a)) (vy (max_box a))
              \<and> intervals_overlap (vz (min_box b)) (vz (max_box b)) (vz (min_box a)) (vz (max_box a))))"

text \<open>
  A bounding-box function for the examples: a box of half-width 0.25 and height 1 that
  follows the position of the object.
\<close>

definition box_around :: "object3d \<Rightarrow> box3" where
  "box_around m =
     \<lparr>min_box = vec3 (js_sub (vx (position m)) (Num 0.25)) (vy (position m))
                      (js_sub (vz (position m)) (Num 0.25)),
      max_box = vec3 (js_add (vx (position m)) (Num 0.25)) (js_add (vy (position m)) (Num 1))
                      (js_add (vz (position m)) (Num 0.25))\<rparr>"

definition default_object3d :: object3d where
  "default_object3d =
     \<lparr>position = zero_vector, rotation = default_euler, scale = vec3 (Num 1) (Num 1) (Num 1)\<rparr>"


section \<open>The AR viewer\<close>

text \<open>
  A \<open>Matrix4\<close> is its array of sixteen elements in column-major order. Reading an array
  past its end gives \<open>undefined\<close>, which counts as NaN in the arithmetic that follows.
\<close>

type_synonym matrix4 = "jsnum list"

definition elt :: "jsnum list \<Rightarrow> nat \<Rightarrow> jsnum" where
  "elt a i = (if i < length a then a ! i else NaN)"

definition fromArray :: "jsnum list \<Rightarrow> matrix4" where
  "fromArray a = map (elt a) [0..<16]"

definition setFromMatrixPosition :: "matrix4 \<Rightarrow> vector3" where
  "setFromMatrixPosition m = vec3 (elt m 12) (elt m 13) (elt m 14)"

definition identity_matrix :: matrix4 where
  "identity_matrix =
     [Num 1, Num 0, Num 0, Num 0,
      Num 0, Num 1, Num 0, Num 0,
      Num 0, Num 0, Num 1, Num 0,
      Num 0, Num 0, Num 0, Num 1]"

text \<open>The pose matrix of a hit at a point, without rotation (for the examples).\<close>

definition poseAt :: "real \<Rightarrow> real \<Rightarrow> real \<Rightarrow> matrix4" where
  "poseAt a b c =
     [Num 1, Num 0, Num 0, Num 0,
      Num 0, Num 1, Num 0, Num 0,
      Num 0, Num 0, Num 1, Num 0,
      Num a, Num b, Num c, Num 1]"

record touch =
  clientX :: jsnum
  clientY :: jsnum

text \<open>
  What the program reads of an \<open>XRFrame\<close>: the results of the viewer hit test and, per
  input source, the results of the transient-input hit test. A result is the matrix of
  its pose, or \<open>None\<close> where \<open>getPose\<close> returns \<open>null\<close>.
\<close>

record xr_frame =
  hitTestResults :: "matrix4 option list"
  transientResults :: "matrix4 option list list"

text \<open>
  The module state of \<open>main.js\<close>. Objects live in a store (\<open>objects\<close>, indexed by
  identity, \<open>nextId\<close> the next fresh one): \<open>currentModel\<close> and the children of the scene
  refer to the same object. \<open>scene\<close> lists the placed objects among the children of the
  scene. \<open>pendingTimeouts\<close> counts the callbacks of \<open>setTimeout\<close> that have not run yet.
\<close>

record ar_state =
  isPresenting :: bool
  hitTestSourceRequested :: bool
  hitTestSource :: bool
  transientHitTestSource :: bool
  reticle_visible :: bool
  reticle_matrix :: matrix4
  loadedGLTF :: "object3d option"
  currentModel :: "nat option"
  objects :: "nat \<Rightarrow> object3d"
  nextId :: nat
  scene :: "nat list"
  isDragging :: bool
  isTwoFinger :: bool
  initialDistance :: jsnum
  initialScale :: vector3
  initialAngle :: jsnum
  initialModelRotation :: jsnum
  pendingTimeouts :: nat

definition ar_init :: ar_state where
  "ar_init =
     \<lparr>isPresenting = False, hitTestSourceRequested = False, hitTestSource = False,
      transientHitTestSource = False, reticle_visible = False,
      reticle_matrix = identity_matrix, loadedGLTF = None, currentModel = None,
      objects = (\<lambda>_. default_object3d), nextId = 0, scene = [],
      isDragging = False, isTwoFinger = False, initialDistance = Num 0,
      initialScale = zero_vector, initialAngle = Num 0, initialModelRotation = Num 0,
      pendingTimeouts = 0\<rparr>"

text \<open>Writing the position of an object in the store.\<close>

definition set_position :: "nat \<Rightarrow> vector3 \<Rightarrow> ar_state \<Rightarrow> ar_state" where
  "set_position i p s = s\<lparr>objects := (objects s)(i := (objects s i)\<lparr>position := p\<rparr>)\<rparr>"

text \<open>\<open>onSelect\<close> (the same function in both variants of the viewer).\<close>

definition onSelect :: "ar_state \<Rightarrow> ar_state" where
  "onSelect s =
     (if isDragging s then s
      else
        (case (reticle_visible s, loadedGLTF s) of
           (True, Some template) \<Rightarrow>
             (case currentModel s of
                Some i \<Rightarrow> set_position i (setFromMatrixPosition (reticle_matrix s)) s
              | None \<Rightarrow>
                  let i = nextId s;
                      s1 = s\<lparr>currentModel := Some i,
                             objects := (objects s)(i := template),
                             nextId := Suc i\<rparr>;
                      s2 = set_position i (setFromMatrixPosition (reticle_matrix s1)) s1
                  in s2\<lparr>scene := scene s2 @ [i]\<rparr>)
         | _ \<Rightarrow> s))"

text \<open>\<open>shouldShowReticle\<close>, in the pinch variant and in the single-finger variant.\<close>

definition shouldShowReticle :: "ar_state \<Rightarrow> matrix4 \<Rightarrow> bool" where
  "shouldShowReticle s reticleMatrix =
     (case currentModel s of
        None \<Rightarrow> True
      | Some i \<Rightarrow>
          let workingVec = setFromMatrixPosition reticleMatrix;
              distance = distanceTo workingVec (position (objects s i))
          in js_gt distance (Num 0.6))"

definition shouldShowReticle_v2 :: "ar_state \<Rightarrow> matrix4 \<Rightarrow> bool" where
  "shouldShowReticle_v2 s reticleMatrix =
     (case currentModel s of
        None \<Rightarrow> True
      | Some i \<Rightarrow>
          let workingVec = setFromMatrixPosition reticleMatrix;
              distance = distanceTo workingVec (position (objects s i))
          in js_gt distance (Num 0.5))"

text \<open>
  \<open>render\<close>. A statement that throws leaves the state as it is at that point: the
  outcome \<open>Inl\<close> carries the error and that state.
\<close>

datatype js_error = TypeError

type_synonym outcome = "(js_error \<times> ar_state) + ar_state"

definition requestSources :: "ar_state \<Rightarrow> ar_state" where
  "requestSources s =
     (if \<not> hitTestSourceRequested s then s\<lparr>hitTestSourceRequested := True\<rparr> else s)"

definition reticleLogic :: "(ar_state \<Rightarrow> matrix4 \<Rightarrow> bool) \<Rightarrow> xr_frame \<Rightarrow> ar_state \<Rightarrow> outcome" where
  "reticleLogic showReticle frame s =
     (if hitTestSource s then
        (case hitTestResults frame of
           [] \<Rightarrow> Inr (s\<lparr>reticle_visible := False\<rparr>)
         | hit # _ \<Rightarrow>
             (case hit of
                None \<Rightarrow> Inl (TypeError, s)
              | Some m \<Rightarrow>
                  let s1 = s\<lparr>reticle_matrix := fromArray m\<rparr>
                  in Inr (s1\<lparr>reticle_visible := showReticle s1 (reticle_matrix s1)\<rparr>)))
      else Inr s)"

definition dragLogic :: "xr_frame \<Rightarrow> ar_state \<Rightarrow> outcome" where
  "dragLogic frame s =
     (if transientHitTestSource s \<and> isDragging s \<and> \<not> isTwoFinger s then
        (case currentModel s of
           None \<Rightarrow> Inr s
         | Some i \<Rightarrow>
             (case transientResults frame of
                [] \<Rightarrow> Inr s
              | rs # _ \<Rightarrow>
                  (case rs of
                     [] \<Rightarrow> Inr s
                   | hit # _ \<Rightarrow>
                       (case hit of
                          None \<Rightarrow> Inl (TypeError, s)
                        | Some m \<Rightarrow> Inr (set_position i (setFromMatrixPosition (fromArray m)) s)))))
      else Inr s)"

definition render :: "xr_frame option \<Rightarrow> ar_state \<Rightarrow> outcome" where
  "render frame s =
     (case frame of
        None \<Rightarrow> Inr s
      | Some fr \<Rightarrow>
          if isPresenting s then
            (case reticleLogic shouldShowReticle fr (requestSources s) of
               Inl e \<Rightarrow> Inl e
             | Inr s1 \<Rightarrow> dragLogic fr s1)
          else Inr s)"

definition render_v2 :: "xr_frame option \<Rightarrow> ar_state \<Rightarrow> outcome" where
  "render_v2 frame s =
     (case frame of
        None \<Rightarrow> Inr s
      | Some fr \<Rightarrow>
          if isPresenting s then reticleLogic shouldShowReticle_v2 fr (requestSources s)
          else Inr s)"

text \<open>
  The touch listeners of the pinch variant. \<open>touchstart_on i\<close> and \<open>touchmove_on i\<close> are
  the bodies of the listeners once \<open>currentModel\<close> is known to be the object \<open>i\<close>.
\<close>

fun touchstart_on :: "nat \<Rightarrow> touch list \<Rightarrow> ar_state \<Rightarrow> ar_state" where
  "touchstart_on i [t] s = s\<lparr>isDragging := True, isTwoFinger := False\<rparr>"
| "touchstart_on i [t0, t1] s =
     (let dx = js_sub (clientX t0) (clientX t1);
          dy = js_sub (clientY t0) (clientY t1)
      in s\<lparr>isDragging := False,
           isTwoFinger := True,
           initialDistance := js_sqrt (js_add (js_mul dx dx) (js_mul dy dy)),
           initialScale := scale (objects s i),
           initialAngle := js_atan2 dy dx,
           initialModelRotation := ey (rotation (objects s i))\<rparr>)"
| "touchstart_on i _ s = s"

definition touchstart :: "touch list \<Rightarrow> ar_state \<Rightarrow> ar_state" where
  "touchstart touches s =
     (case currentModel s of None \<Rightarrow> s | Some i \<Rightarrow> touchstart_on i touches s)"

fun touchmove_on :: "nat \<Rightarrow> touch list \<Rightarrow> ar_state \<Rightarrow> ar_state" where
  "touchmove_on i [t0, t1] s =
     (if isTwoFinger s then
        let dx = js_sub (clientX t0) (clientX t1);
            dy = js_sub (clientY t0) (clientY t1);
            currentDistance = js_sqrt (js_add (js_mul dx dx) (js_mul dy dy));
            scaleFactor = js_div currentDistance (initialDistance s);
            newScale = js_max (Num 0.1) (js_min (js_mul (vx (initialScale s)) scaleFactor) (Num 5.0));
            currentAngle = js_atan2 dy dx;
            angleDiff = js_sub currentAngle (initialAngle s);
            m = objects s i
        in s\<lparr>objects := (objects s)
                 (i := m\<lparr>scale := vec3 newScale newScale newScale,
                         rotation := (rotation m)\<lparr>ey := js_sub (initialModelRotation s) angleDiff\<rparr>\<rparr>)\<rparr>
      else s)"
| "touchmove_on i _ s = s"

definition touchmove :: "touch list \<Rightarrow> ar_state \<Rightarrow> ar_state" where
  "touchmove touches s =
     (case currentModel s of None \<Rightarrow> s | Some i \<Rightarrow> touchmove_on i touches s)"

text \<open>
  \<open>touchend\<close> only starts the timer of 100 ms; \<open>timeout\<close> is its callback running, which
  needs a timer to be pending.
\<close>

definition touchend :: "ar_state \<Rightarrow> ar_state" where
  "touchend s = s\<lparr>pendingTimeouts := Suc (pendingTimeouts s)\<rparr>"

definition timeout :: "ar_state \<Rightarrow> ar_state" where
  "timeout s =
     (if 0 < pendingTimeouts s
      then s\<lparr>isDragging := False, isTwoFinger := False,
             pendingTimeouts := pendingTimeouts s - 1\<rparr>
      else s)"

text \<open>What the host delivers to the pinch variant, one event at a time.\<close>

datatype ar_event =
    Select
  | TouchStart "touch list"
  | TouchMove "touch list"
  | TouchEnd
  | Timeout
  | Frame "xr_frame option"
  | TemplateLoaded object3d
  | SessionStart
  | SessionEnd
  | HitSourceGranted
  | TransientSourceGranted

definition state_of :: "outcome \<Rightarrow> ar_state" where
  "state_of r = (case r of Inl (e, s) \<Rightarrow> s | Inr s \<Rightarrow> s)"

fun ar_step :: "ar_event \<Rightarrow> ar_state \<Rightarrow> ar_state" where
  "ar_step Select s = onSelect s"
| "ar_step (TouchStart touches) s = touchstart touches s"
| "ar_step (TouchMove touches) s = touchmove touches s"
| "ar_step TouchEnd s = touchend s"
| "ar_step Timeout s = timeout s"
| "ar_step (Frame frame) s = state_of (render frame s)"
| "ar_step (TemplateLoaded g) s = s\<lparr>loadedGLTF := Some g\<rparr>"
| "ar_step SessionStart s = s\<lparr>isPresenting := True\<rparr>"
| "ar_step SessionEnd s =
     s\<lparr>isPresenting := False, hitTestSourceRequested := False, hitTestSource := False,
       transientHitTestSource := False\<rparr>"
| "ar_step HitSourceGranted s = s\<lparr>hitTestSource := True\<rparr>"
| "ar_step TransientSourceGranted s = s\<lparr>transientHitTestSource := True\<rparr>"

definition ar_run :: "ar_event list \<Rightarrow> ar_state \<Rightarrow> ar_state" where
  "ar_run evs s = fold ar_step evs s"

text \<open>The placed objects: the scene holds exactly the object of \<open>currentModel\<close>, if any.\<close>

definition one_placed :: "ar_state \<Rightarrow> bool" where
  "one_placed s =
     (scene s = (case currentModel s of None \<Rightarrow> [] | Some i \<Rightarrow> [i]) \<and> nextId s = length (scene s))"

text \<open>The band of the specification: a number from 0.1 to 5.0 (NaN is no such number).\<close>

definition in_band :: "jsnum \<Rightarrow> bool" where
  "in_band v = (js_le (Num 0.1) v \<and> js_le v (Num 5.0))"


text \<open>
  Inputs of the examples: the product loaded into the initial state with \<open>box_around\<close>
  as its bounding box, positions on the floor, and a room of three nodes.
\<close>

definition room_loaded :: room_state where
  "room_loaded = loadProduct box_around default_object3d room_init"

definition on_floor :: "real \<Rightarrow> real \<Rightarrow> vector3" where
  "on_floor a c = vec3 (Num a) (Num 0) (Num c)"

definition unit_box :: box3 where
  "unit_box = \<lparr>min_box = vec3 (Num 0) (Num 0) (Num 0), max_box = vec3 (Num 1) (Num 1) (Num 1)\<rparr>"

definition plain_room :: "scene_node list" where
  "plain_room =
     [\<lparr>isMesh = True, name = ''Wall_North'', world_box = unit_box\<rparr>,
      \<lparr>isMesh = False, name = ''Almirah_Group'', world_box = unit_box\<rparr>,
      \<lparr>isMesh = True, name = ''Floor'', world_box = unit_box\<rparr>]"

text \<open>Inputs of the examples of the AR viewer.\<close>

definition hit_frame :: "real \<Rightarrow> real \<Rightarrow> real \<Rightarrow> xr_frame" where
  "hit_frame a b c = \<lparr>hitTestResults = [Some (poseAt a b c)], transientResults = []\<rparr>"

definition hit_at :: "real \<Rightarrow> real \<Rightarrow> real \<Rightarrow> xr_frame option" where
  "hit_at a b c = Some (hit_frame a b c)"

definition placed_at_origin :: ar_state where
  "placed_at_origin =
     ar_run [TemplateLoaded default_object3d, SessionStart, Frame (hit_at 0 0 0),
             HitSourceGranted, Frame (hit_at 0 0 0), Select] ar_init"

definition finger :: "real \<Rightarrow> real \<Rightarrow> touch" where
  "finger a b = \<lparr>clientX = Num a, clientY = Num b\<rparr>"

definition ready_to_place :: ar_state where
  "ready_to_place =
     ar_run [TemplateLoaded default_object3d, SessionStart, Frame (hit_at 0 0 0),
             HitSourceGranted, Frame (hit_at 0 0 0)] ar_init"



definition pinch_released :: ar_state where
  "pinch_released =
     ar_run [Frame (hit_at 1 0 0),
             TouchStart [finger 100 200],
             TouchStart [finger 100 200, finger 300 200],
             TouchMove [finger 100 200, finger 400 200],
             TouchEnd, TouchEnd] placed_at_origin"

definition drag_released :: ar_state where
  "drag_released =
     ar_run [Frame (hit_at 1 0 0), TouchStart [finger 100 200], TouchEnd] placed_at_origin"

definition reticle_moved :: ar_state where
  "reticle_moved = ar_run [Frame (hit_at 1 0 0)] placed_at_origin"









section \<open>Properties of the room configurator\<close>

lemmas js_cmp_defs = js_gt_def js_le_def js_ge_def js_sub_def

lemmas room_example_defs =
  room_loaded_def loadProduct_def centerModel_def box_around_def default_object3d_def
  room_init_def getCenter_def isEmpty_def vec_sub_def vec3_def zero_vector_def
  default_euler_def empty_box_def on_floor_def roomLimits_def isOutside_def
  hitsAlmirah_def gizmoFrame_def propose_def onChange_def passes_def Let_def

lemma reject_eq_spec:
  "(isOutside b \<or> hitsAlmirah ab b) = spec_rejects roomLimits ab b"
  by (simp add: isOutside_def hitsAlmirah_def spec_rejects_def intersectsBox_def
      intervals_overlap_def js_ge_def split: option.splits)

lemma gizmo_accept:
  "passes f t p r \<Longrightarrow>
     lastValidPosition (gizmoFrame f p r t) = p \<and> lastValidRotation (gizmoFrame f p r t) = r"
  by (auto simp: passes_def gizmoFrame_def propose_def onChange_def Let_def split: option.splits)

lemma gizmo_reject:
  "\<not> passes f t p r \<Longrightarrow>
     lastValidPosition (gizmoFrame f p r t) = lastValidPosition t
     \<and> lastValidRotation (gizmoFrame f p r t) = lastValidRotation t"
  by (auto simp: passes_def gizmoFrame_def propose_def onChange_def Let_def split: option.splits)

lemma visitRoomChild_keeps:
  "lastValidPosition (visitRoomChild n s) = lastValidPosition s
   \<and> lastValidRotation (visitRoomChild n s) = lastValidRotation s
   \<and> currentModel_rc (visitRoomChild n s) = currentModel_rc s"
  by (simp add: visitRoomChild_def)

lemma loadCustomRoom_keeps:
  "lastValidPosition (loadCustomRoom room s) = lastValidPosition s
   \<and> lastValidRotation (loadCustomRoom room s) = lastValidRotation s
   \<and> currentModel_rc (loadCustomRoom room s) = currentModel_rc s"
  unfolding loadCustomRoom_def
  by (induction room arbitrary: s) (simp_all add: visitRoomChild_keeps)

lemma room_run_snoc: "room_run f (evs @ [e]) s = room_step f e (room_run f evs s)"
  by (simp add: room_run_def)

lemma last_valid_history:
  "(lastValidPosition (room_run f evs (loadProduct f g s0)) = position (centerModel f g)
    \<and> lastValidRotation (room_run f evs (loadProduct f g s0)) = rotation (centerModel f g))
   \<or> (\<exists>evs1 p r evs2. evs = evs1 @ Propose p r # evs2
        \<and> passes f (room_run f evs1 (loadProduct f g s0)) p r
        \<and> lastValidPosition (room_run f evs (loadProduct f g s0)) = p
        \<and> lastValidRotation (room_run f evs (loadProduct f g s0)) = r)"
proof (induction evs rule: rev_induct)
  case Nil
  show ?case by (simp add: room_run_def loadProduct_def Let_def)
next
  case (snoc e evs)
  let ?t = "room_run f evs (loadProduct f g s0)"
  let ?t' = "room_run f (evs @ [e]) (loadProduct f g s0)"
  have keep: "?case" if "lastValidPosition ?t' = lastValidPosition ?t"
    and "lastValidRotation ?t' = lastValidRotation ?t"
  proof -
    from snoc.IH show ?thesis
    proof
      assume "lastValidPosition ?t = position (centerModel f g)
              \<and> lastValidRotation ?t = rotation (centerModel f g)"
      with that show ?thesis by simp
    next
      assume "\<exists>evs1 p r evs2. evs = evs1 @ Propose p r # evs2
        \<and> passes f (room_run f evs1 (loadProduct f g s0)) p r
        \<and> lastValidPosition ?t = p \<and> lastValidRotation ?t = r"
      then obtain evs1 p r evs2 where "evs = evs1 @ Propose p r # evs2"
        and "passes f (room_run f evs1 (loadProduct f g s0)) p r"
        and "lastValidPosition ?t = p" and "lastValidRotation ?t = r"
        by blast
      with that have "evs @ [e] = evs1 @ Propose p r # (evs2 @ [e])
        \<and> passes f (room_run f evs1 (loadProduct f g s0)) p r
        \<and> lastValidPosition ?t' = p \<and> lastValidRotation ?t' = r"
        by simp
      then show ?thesis by blast
    qed
  qed
  show ?case
  proof (cases e)
    case (Propose p r)
    show ?thesis
    proof (cases "passes f ?t p r")
      case True
      with Propose have "evs @ [e] = evs @ Propose p r # []
        \<and> passes f ?t p r
        \<and> lastValidPosition ?t' = p \<and> lastValidRotation ?t' = r"
        by (simp add: room_run_snoc gizmo_accept)
      then show ?thesis by blast
    next
      case False
      with Propose show ?thesis
        by (intro keep) (simp_all add: room_run_snoc gizmo_reject)
    qed
  next
    case (RoomLoaded room)
    then show ?thesis
      by (intro keep) (simp_all add: room_run_snoc loadCustomRoom_keeps)
  qed
qed

lemma no_almirah_found:
  assumes "almirahBox s = None"
    and "\<forall>n \<in> set room. isMesh n \<longrightarrow> \<not> str_includes (name n) ''Almirah''"
  shows "almirahBox (loadCustomRoom room s) = None"
  using assms unfolding loadCustomRoom_def
  by (induction room arbitrary: s) (simp_all add: visitRoomChild_def)

lemma room_loaded_eq:
  "room_loaded =
     \<lparr>currentModel_rc = Some default_object3d, almirahBox = None, boxHelper = empty_box,
      lastValidPosition = zero_vector, lastValidRotation = default_euler\<rparr>"
  by (simp add: room_example_defs js_cmp_defs)

text \<open>
  C1. When the bounding box recomputed for a proposed position and rotation leaves the
  room limits or intersects the obstacle box, the position and the rotation of the object
  after the frame are the last valid position and rotation held before the frame; its
  scale is the scale it had.
\<close>

theorem rejection_restores_last_valid:
  assumes "currentModel_rc s = Some m"
    and "isOutside (f (m\<lparr>position := p, rotation := r\<rparr>))
         \<or> hitsAlmirah (almirahBox s) (f (m\<lparr>position := p, rotation := r\<rparr>))"
  shows "map_option position (currentModel_rc (gizmoFrame f p r s)) = Some (lastValidPosition s)
       \<and> map_option rotation (currentModel_rc (gizmoFrame f p r s)) = Some (lastValidRotation s)
       \<and> map_option scale (currentModel_rc (gizmoFrame f p r s)) = Some (scale m)"
  using assms by (auto simp: gizmoFrame_def propose_def onChange_def Let_def)

theorem rejection_restores_last_valid_witness:
  "currentModel_rc room_loaded = Some default_object3d
   \<and> isOutside (box_around (default_object3d\<lparr>position := on_floor 3.3 0, rotation := default_euler\<rparr>))
   \<and> map_option position (currentModel_rc (gizmoFrame box_around (on_floor 3.3 0) default_euler room_loaded))
       = Some zero_vector
   \<and> map_option rotation (currentModel_rc (gizmoFrame box_around (on_floor 3.3 0) default_euler room_loaded))
       = Some default_euler
   \<and> map_option scale (currentModel_rc (gizmoFrame box_around (on_floor 3.3 0) default_euler room_loaded))
       = Some (vec3 (Num 1) (Num 1) (Num 1))"
proof -
  have m: "currentModel_rc room_loaded = Some default_object3d"
    by (simp add: room_loaded_eq)
  have out: "isOutside (box_around (default_object3d\<lparr>position := on_floor 3.3 0, rotation := default_euler\<rparr>))"
    by (simp add: isOutside_def box_around_def on_floor_def vec3_def roomLimits_def js_gt_def)
  from rejection_restores_last_valid [where f = box_around, OF m disjI1, OF out] m out
  show ?thesis
    by (simp add: room_loaded_eq default_object3d_def)
qed

text \<open>
  C3. The change listener rejects (restores the last valid state) exactly when the
  recomputed box has \<open>min.x < minX\<close>, \<open>max.x > maxX\<close>, \<open>min.z < minZ\<close> or \<open>max.z > maxZ\<close>
  of the room limits, or overlaps the obstacle box on all three axes; otherwise it accepts
  (saves the current position and rotation).
\<close>

theorem validator_rejects_iff:
  assumes "currentModel_rc s = Some m"
  shows "(spec_rejects roomLimits (almirahBox s) (f m) \<longrightarrow>
            onChange f s =
              s\<lparr>boxHelper := f m,
                currentModel_rc :=
                  Some (m\<lparr>position := lastValidPosition s, rotation := lastValidRotation s\<rparr>)\<rparr>)
       \<and> (\<not> spec_rejects roomLimits (almirahBox s) (f m) \<longrightarrow>
            onChange f s =
              s\<lparr>boxHelper := f m,
                lastValidPosition := position m, lastValidRotation := rotation m\<rparr>)
       \<and> roomLimits = \<lparr>minX = Num (- 3.25), maxX = Num 3.25, minZ = Num (- 3.92), maxZ = Num 2.8\<rparr>"
  using assms reject_eq_spec [of "f m" "almirahBox s"]
  by (simp add: onChange_def Let_def roomLimits_def)

theorem validator_rejects_iff_witness:
  "currentModel_rc (propose (on_floor 3 0) default_euler room_loaded)
     = Some (default_object3d\<lparr>position := on_floor 3 0, rotation := default_euler\<rparr>)
   \<and> \<not> spec_rejects roomLimits None
         (box_around (default_object3d\<lparr>position := on_floor 3 0, rotation := default_euler\<rparr>))
   \<and> lastValidPosition (onChange box_around (propose (on_floor 3 0) default_euler room_loaded))
       = on_floor 3 0
   \<and> spec_rejects roomLimits (Some unit_box)
         (box_around (default_object3d\<lparr>position := on_floor 1.25 0, rotation := default_euler\<rparr>))
   \<and> \<not> spec_rejects roomLimits (Some unit_box)
         (box_around (default_object3d\<lparr>position := on_floor 1.3 0, rotation := default_euler\<rparr>))"
proof -
  let ?m = "default_object3d\<lparr>position := on_floor 3 0, rotation := default_euler\<rparr>"
  have m: "currentModel_rc (propose (on_floor 3 0) default_euler room_loaded) = Some ?m"
    by (simp add: room_loaded_eq propose_def)
  have ab: "almirahBox (propose (on_floor 3 0) default_euler room_loaded) = None"
    by (simp add: room_loaded_eq propose_def)
  have ok: "\<not> spec_rejects roomLimits None (box_around ?m)"
    by (simp add: spec_rejects_def box_around_def on_floor_def vec3_def roomLimits_def
        js_gt_def js_sub_def default_object3d_def)
  have touch: "spec_rejects roomLimits (Some unit_box)
         (box_around (default_object3d\<lparr>position := on_floor 1.25 0, rotation := default_euler\<rparr>))"
    by (simp add: spec_rejects_def box_around_def on_floor_def vec3_def roomLimits_def
        js_gt_def js_sub_def js_le_def default_object3d_def unit_box_def intervals_overlap_def)
  have clear: "\<not> spec_rejects roomLimits (Some unit_box)
         (box_around (default_object3d\<lparr>position := on_floor 1.3 0, rotation := default_euler\<rparr>))"
    by (simp add: spec_rejects_def box_around_def on_floor_def vec3_def roomLimits_def
        js_gt_def js_sub_def js_le_def default_object3d_def unit_box_def intervals_overlap_def)
  from validator_rejects_iff [where f = box_around, OF m] ab ok
  have "lastValidPosition (onChange box_around (propose (on_floor 3 0) default_euler room_loaded))
       = on_floor 3 0"
    by simp
  with m ok touch clear show ?thesis by simp
qed

text \<open>
  C2. The last valid position and rotation become the proposed ones when the proposal
  passes the room-limits check and the obstacle check, and stay as they are when it does
  not. After the product has loaded, whatever gizmo updates and room load follow, they
  are either those of the centred product or a proposal that passed the validator in the
  state in which it was made.
\<close>

theorem last_valid_updated_on_acceptance_only:
  "(passes f t p r \<longrightarrow>
      lastValidPosition (gizmoFrame f p r t) = p \<and> lastValidRotation (gizmoFrame f p r t) = r)
   \<and> (\<not> passes f t p r \<longrightarrow>
      lastValidPosition (gizmoFrame f p r t) = lastValidPosition t
      \<and> lastValidRotation (gizmoFrame f p r t) = lastValidRotation t)
   \<and> ((lastValidPosition (room_run f evs (loadProduct f g s0)) = position (centerModel f g)
        \<and> lastValidRotation (room_run f evs (loadProduct f g s0)) = rotation (centerModel f g))
      \<or> (\<exists>evs1 q u evs2. evs = evs1 @ Propose q u # evs2
            \<and> passes f (room_run f evs1 (loadProduct f g s0)) q u
            \<and> lastValidPosition (room_run f evs (loadProduct f g s0)) = q
            \<and> lastValidRotation (room_run f evs (loadProduct f g s0)) = u))"
  using gizmo_accept [of f t p r] gizmo_reject [of f t p r] last_valid_history [of f evs g s0]
  by blast

theorem last_valid_updated_on_acceptance_only_witness:
  "passes box_around room_loaded (on_floor 3 0) default_euler
   \<and> lastValidPosition (gizmoFrame box_around (on_floor 3 0) default_euler room_loaded) = on_floor 3 0
   \<and> \<not> passes box_around (gizmoFrame box_around (on_floor 3 0) default_euler room_loaded)
          (on_floor 3.3 0) default_euler
   \<and> lastValidPosition
        (gizmoFrame box_around (on_floor 3.3 0) default_euler
           (gizmoFrame box_around (on_floor 3 0) default_euler room_loaded)) = on_floor 3 0"
proof -
  let ?t = "gizmoFrame box_around (on_floor 3 0) default_euler room_loaded"
  have t: "?t = room_loaded\<lparr>currentModel_rc :=
                  Some (default_object3d\<lparr>position := on_floor 3 0, rotation := default_euler\<rparr>),
                boxHelper := box_around (default_object3d\<lparr>position := on_floor 3 0, rotation := default_euler\<rparr>),
                lastValidPosition := on_floor 3 0, lastValidRotation := default_euler\<rparr>"
    by (simp add: room_loaded_eq gizmoFrame_def propose_def onChange_def Let_def isOutside_def
        hitsAlmirah_def box_around_def on_floor_def vec3_def roomLimits_def js_gt_def js_sub_def
        default_object3d_def)
  have acc: "passes box_around room_loaded (on_floor 3 0) default_euler"
    by (simp add: room_loaded_eq passes_def Let_def isOutside_def
        hitsAlmirah_def box_around_def on_floor_def vec3_def roomLimits_def js_gt_def js_sub_def
        default_object3d_def)
  have rej: "\<not> passes box_around ?t (on_floor 3.3 0) default_euler"
    unfolding t
    by (simp add: room_loaded_eq passes_def Let_def isOutside_def
        hitsAlmirah_def box_around_def on_floor_def vec3_def roomLimits_def js_gt_def js_sub_def
        default_object3d_def)
  from last_valid_updated_on_acceptance_only
         [of box_around room_loaded "on_floor 3 0" default_euler "[]" default_object3d room_init]
       acc
  have one: "lastValidPosition ?t = on_floor 3 0" by simp
  from last_valid_updated_on_acceptance_only
         [of box_around ?t "on_floor 3.3 0" default_euler "[]" default_object3d room_init]
       rej one
  have "lastValidPosition (gizmoFrame box_around (on_floor 3.3 0) default_euler ?t) = on_floor 3 0"
    by simp
  with acc one rej show ?thesis by simp
qed

text \<open>
  C9. When no mesh of the loaded room has a name containing \<open>Almirah\<close>, the obstacle box
  stays \<open>null\<close>, the obstacle test of the change listener is false for every box, and a
  proposal passes the validator exactly when its box is inside the room limits.
\<close>

theorem no_obstacle_mesh_limits_only:
  assumes "almirahBox s = None"
    and "\<forall>n \<in> set room. isMesh n \<longrightarrow> \<not> str_includes (name n) ''Almirah''"
  shows "almirahBox (loadCustomRoom room s) = None
       \<and> hitsAlmirah (almirahBox (loadCustomRoom room s)) b = False
       \<and> passes f (loadCustomRoom room s) p r =
           (case currentModel_rc s of
              None \<Rightarrow> False
            | Some m \<Rightarrow> \<not> isOutside (f (m\<lparr>position := p, rotation := r\<rparr>)))
       \<and> (passes f (loadCustomRoom room s) p r \<longrightarrow>
            lastValidPosition (gizmoFrame f p r (loadCustomRoom room s)) = p
            \<and> lastValidRotation (gizmoFrame f p r (loadCustomRoom room s)) = r)"
proof -
  have none: "almirahBox (loadCustomRoom room s) = None"
    using assms by (rule no_almirah_found)
  have model: "currentModel_rc (loadCustomRoom room s) = currentModel_rc s"
    by (simp add: loadCustomRoom_keeps)
  show ?thesis
    using none model gizmo_accept [of f "loadCustomRoom room s" p r]
    by (simp add: hitsAlmirah_def passes_def Let_def split: option.splits)
qed

theorem no_obstacle_mesh_limits_only_witness:
  "almirahBox room_loaded = None
   \<and> almirahBox (loadCustomRoom plain_room room_loaded) = None
   \<and> passes box_around (loadCustomRoom plain_room room_loaded) (on_floor 0.5 0.5) default_euler
   \<and> lastValidPosition
        (gizmoFrame box_around (on_floor 0.5 0.5) default_euler (loadCustomRoom plain_room room_loaded))
       = on_floor 0.5 0.5"
proof -
  have a: "almirahBox room_loaded = None"
    by (simp add: room_loaded_eq)
  have b: "\<forall>n \<in> set plain_room. isMesh n \<longrightarrow> \<not> str_includes (name n) ''Almirah''"
    by (simp add: plain_room_def)
  have c: "\<not> isOutside (box_around (default_object3d\<lparr>position := on_floor 0.5 0.5, rotation := default_euler\<rparr>))"
    by (simp add: isOutside_def box_around_def on_floor_def vec3_def roomLimits_def js_gt_def js_sub_def)
  from no_obstacle_mesh_limits_only
         [OF a b, where f = box_around and p = "on_floor 0.5 0.5" and r = default_euler] a b c
  show ?thesis
    by (simp add: room_loaded_eq)
qed



section \<open>Properties of the AR viewer\<close>

lemma fromArray_16: "length a = 16 \<Longrightarrow> fromArray a = a"
proof -
  assume len: "length a = 16"
  have "map (elt a) [0..<16] = map ((!) a) [0..<length a]"
    using len by (intro map_cong) (auto simp: elt_def)
  then show "fromArray a = a"
    by (simp add: fromArray_def map_nth)
qed

lemma fromArray_poseAt: "fromArray (poseAt a b c) = poseAt a b c"
  by (rule fromArray_16) (simp add: poseAt_def)

lemma position_poseAt: "setFromMatrixPosition (poseAt a b c) = vec3 (Num a) (Num b) (Num c)"
  by (simp add: setFromMatrixPosition_def poseAt_def elt_def)

lemma clamp_in_band:
  "v \<noteq> NaN \<Longrightarrow> in_band (js_max (Num 0.1) (js_min v (Num 5.0)))"
  by (cases v) (auto simp: in_band_def js_max_def js_min_def js_le_def)

lemma clamp_nan: "js_max (Num 0.1) (js_min NaN (Num 5.0)) = NaN"
  by (simp add: js_max_def js_min_def)

lemma pinch_frame:
  assumes "currentModel s = Some i" and "isTwoFinger s"
  shows "objects (touchmove [t0, t1] s) i =
     (let dx = js_sub (clientX t0) (clientX t1);
          dy = js_sub (clientY t0) (clientY t1);
          currentDistance = js_sqrt (js_add (js_mul dx dx) (js_mul dy dy));
          newScale = js_max (Num 0.1)
                       (js_min (js_mul (vx (initialScale s)) (js_div currentDistance (initialDistance s)))
                          (Num 5.0))
      in (objects s i)
           \<lparr>scale := vec3 newScale newScale newScale,
            rotation := (rotation (objects s i))
               \<lparr>ey := js_sub (initialModelRotation s) (js_sub (js_atan2 dy dx) (initialAngle s))\<rparr>\<rparr>)"
  using assms by (simp add: touchmove_def Let_def)


text \<open>
  A session of the examples: the template loads, the session starts, the hit-test source
  is granted, a hit at the origin shows the reticle, and a tap places the object there.
\<close>

lemma placed_at_origin_eq:
  "placed_at_origin =
     \<lparr>isPresenting = True, hitTestSourceRequested = True, hitTestSource = True,
      transientHitTestSource = False, reticle_visible = True,
      reticle_matrix = poseAt 0 0 0, loadedGLTF = Some default_object3d, currentModel = Some 0,
      objects = (\<lambda>_. default_object3d)(0 := default_object3d\<lparr>position := vec3 (Num 0) (Num 0) (Num 0)\<rparr>),
      nextId = Suc 0, scene = [0],
      isDragging = False, isTwoFinger = False, initialDistance = Num 0,
      initialScale = zero_vector, initialAngle = Num 0, initialModelRotation = Num 0,
      pendingTimeouts = 0\<rparr>"
  by (simp add: placed_at_origin_def ar_run_def ar_init_def render_def requestSources_def
      reticleLogic_def dragLogic_def state_of_def hit_at_def hit_frame_def shouldShowReticle_def
      fromArray_poseAt position_poseAt onSelect_def set_position_def Let_def)

lemma ready_to_place_eq:
  "ready_to_place =
     \<lparr>isPresenting = True, hitTestSourceRequested = True, hitTestSource = True,
      transientHitTestSource = False, reticle_visible = True,
      reticle_matrix = poseAt 0 0 0, loadedGLTF = Some default_object3d, currentModel = None,
      objects = (\<lambda>_. default_object3d), nextId = 0, scene = [],
      isDragging = False, isTwoFinger = False, initialDistance = Num 0,
      initialScale = zero_vector, initialAngle = Num 0, initialModelRotation = Num 0,
      pendingTimeouts = 0\<rparr>"
  by (simp add: ready_to_place_def ar_run_def ar_init_def render_def requestSources_def
      reticleLogic_def dragLogic_def state_of_def hit_at_def hit_frame_def shouldShowReticle_def
      fromArray_poseAt Let_def)

lemma distance_along_x:
  "distanceTo (vec3 (Num a) (Num b) (Num c)) (vec3 (Num 0) (Num b) (Num c)) = Num \<bar>a\<bar>"
  by (simp add: distanceTo_def vec3_def js_sub_def Let_def)

text \<open>None of the handlers but \<open>onSelect\<close> touches the scene, \<open>currentModel\<close> or \<open>nextId\<close>.\<close>

lemma touchstart_on_placement:
  "scene (touchstart_on i ts s) = scene s \<and> currentModel (touchstart_on i ts s) = currentModel s
   \<and> nextId (touchstart_on i ts s) = nextId s"
  by (induction i ts s rule: touchstart_on.induct) (simp_all add: Let_def)

lemma touchmove_on_placement:
  "scene (touchmove_on i ts s) = scene s \<and> currentModel (touchmove_on i ts s) = currentModel s
   \<and> nextId (touchmove_on i ts s) = nextId s"
  by (induction i ts s rule: touchmove_on.induct) (simp_all add: Let_def)

lemma reticleLogic_placement:
  "scene (state_of (reticleLogic sh fr s)) = scene s
   \<and> currentModel (state_of (reticleLogic sh fr s)) = currentModel s
   \<and> nextId (state_of (reticleLogic sh fr s)) = nextId s"
  by (simp add: reticleLogic_def state_of_def Let_def split: list.splits option.splits)

lemma dragLogic_placement:
  "scene (state_of (dragLogic fr s)) = scene s
   \<and> currentModel (state_of (dragLogic fr s)) = currentModel s
   \<and> nextId (state_of (dragLogic fr s)) = nextId s"
  by (simp add: dragLogic_def state_of_def set_position_def split: list.splits option.splits)

lemma dragLogic_reticle:
  "reticle_visible (state_of (dragLogic fr s)) = reticle_visible s
   \<and> reticle_matrix (state_of (dragLogic fr s)) = reticle_matrix s"
  by (simp add: dragLogic_def state_of_def set_position_def split: list.splits option.splits)

lemma state_of_simps: "state_of (Inl (e, s)) = s" "state_of (Inr s) = s"
  by (simp_all add: state_of_def)

lemma render_split:
  "state_of (render (Some fr) s) =
     (if isPresenting s
      then (case reticleLogic shouldShowReticle fr (requestSources s) of
              Inl (e, s1) \<Rightarrow> s1
            | Inr s1 \<Rightarrow> state_of (dragLogic fr s1))
      else s)"
  by (simp add: render_def state_of_def split: sum.splits prod.splits)

lemma render_placement:
  "scene (state_of (render frame s)) = scene s
   \<and> currentModel (state_of (render frame s)) = currentModel s
   \<and> nextId (state_of (render frame s)) = nextId s"
proof (cases frame)
  case None
  then show ?thesis by (simp add: render_def state_of_def)
next
  case (Some fr)
  have req: "scene (requestSources s) = scene s \<and> currentModel (requestSources s) = currentModel s
      \<and> nextId (requestSources s) = nextId s"
    by (simp add: requestSources_def)
  show ?thesis
  proof (cases "reticleLogic shouldShowReticle fr (requestSources s)")
    case (Inl a)
    with reticleLogic_placement [of shouldShowReticle fr "requestSources s"] req Some
    show ?thesis
      by (cases a) (simp add: render_split state_of_simps)
  next
    case (Inr s1)
    with reticleLogic_placement [of shouldShowReticle fr "requestSources s"] req Some
         dragLogic_placement [of fr s1]
    show ?thesis
      by (simp add: render_split state_of_simps)
  qed
qed

lemma one_placed_onSelect: "one_placed s \<Longrightarrow> one_placed (onSelect s)"
  by (auto simp: one_placed_def onSelect_def set_position_def Let_def
      split: option.splits bool.splits)

lemma one_placed_step: "one_placed s \<Longrightarrow> one_placed (ar_step e s)"
proof (cases e)
  case Select
  assume "one_placed s"
  with Select show ?thesis by (simp add: one_placed_onSelect)
next
  case (TouchStart ts)
  assume "one_placed s"
  with TouchStart show ?thesis
    by (simp add: one_placed_def touchstart_def touchstart_on_placement split: option.splits)
next
  case (TouchMove ts)
  assume "one_placed s"
  with TouchMove show ?thesis
    by (simp add: one_placed_def touchmove_def touchmove_on_placement split: option.splits)
next
  case (Frame frame)
  assume "one_placed s"
  with Frame show ?thesis
    by (simp add: one_placed_def render_placement)
qed (simp_all add: one_placed_def touchend_def timeout_def)

lemma ar_run_snoc: "ar_run (evs @ [e]) s = ar_step e (ar_run evs s)"
  by (simp add: ar_run_def)

lemma one_placed_run: "one_placed (ar_run evs ar_init)"
proof (induction evs rule: rev_induct)
  case Nil
  show ?case by (simp add: ar_run_def one_placed_def ar_init_def)
next
  case (snoc e evs)
  then show ?case by (simp add: ar_run_snoc one_placed_step)
qed

lemma one_placed_length: "one_placed s \<Longrightarrow> length (scene s) \<le> 1"
  by (simp add: one_placed_def split: option.splits)

lemma placed_step: "placed_at_origin = onSelect ready_to_place"
  by (simp add: placed_at_origin_def ready_to_place_def ar_run_def)

lemma pinch_scale_in_band:
  assumes "currentModel s = Some i" and "isTwoFinger s"
    and "js_mul (vx (initialScale s))
           (js_div (js_sqrt (js_add
               (js_mul (js_sub (clientX t0) (clientX t1)) (js_sub (clientX t0) (clientX t1)))
               (js_mul (js_sub (clientY t0) (clientY t1)) (js_sub (clientY t0) (clientY t1)))))
             (initialDistance s)) \<noteq> NaN"
  shows "in_band (vx (scale (objects (touchmove [t0, t1] s) i)))"
  using assms clamp_in_band by (simp add: pinch_frame Let_def vec3_def)

text \<open>
  C4. On a two-finger move frame the scale written to the three axes is
  \<open>Math.max (0.1, Math.min (initialScale.x * (currentDistance / initialDistance), 5.0))\<close>.
  It lies in the band from 0.1 to 5.0 whenever the product is a number
  (\<open>pinch_scale_in_band\<close>), but not on every frame: when the two touch points coincide
  both at the snapshot and on the frame, the quotient is \<open>0 / 0\<close> and the scale written
  is NaN.
\<close>

theorem pinch_scale_nan_at_coincident_touches:
  "scale (objects
     (ar_run [TouchStart [finger 100 200, finger 100 200],
              TouchMove [finger 100 200, finger 100 200]] placed_at_origin) 0)
     = vec3 NaN NaN NaN
   \<and> \<not> in_band NaN"
  by (simp add: ar_run_def placed_at_origin_eq touchstart_def touchmove_def finger_def
      js_sub_def js_max_def js_min_def in_band_def js_le_def Let_def default_object3d_def
      vec3_def)







text \<open>
  C6. On a presenting frame with a hit-test result (the hit-test source granted, the
  first result with a pose), the matrix of the reticle becomes the matrix of the hit pose
  and the reticle is visible if no object is placed, and otherwise exactly when the
  distance from the position of the hit pose to the position of the object is greater
  than 0.6 (0.5 in the single-finger variant); at a distance equal to the threshold it is
  hidden.
\<close>

theorem reticle_visible_iff_far:
  assumes "isPresenting s" and "hitTestSource s" and "hitTestResults fr = Some m # rest"
  shows "reticle_matrix (state_of (render (Some fr) s)) = fromArray m
       \<and> (length m = 16 \<longrightarrow> reticle_matrix (state_of (render (Some fr) s)) = m)
       \<and> reticle_visible (state_of (render (Some fr) s)) =
           (case currentModel s of
              None \<Rightarrow> True
            | Some i \<Rightarrow>
                js_gt (distanceTo (setFromMatrixPosition (fromArray m)) (position (objects s i)))
                  (Num 0.6))
       \<and> (\<forall>i. currentModel s = Some i
              \<and> distanceTo (setFromMatrixPosition (fromArray m)) (position (objects s i)) = Num 0.6
            \<longrightarrow> \<not> reticle_visible (state_of (render (Some fr) s)))
       \<and> reticle_matrix (state_of (render_v2 (Some fr) s)) = fromArray m
       \<and> reticle_visible (state_of (render_v2 (Some fr) s)) =
           (case currentModel s of
              None \<Rightarrow> True
            | Some i \<Rightarrow>
                js_gt (distanceTo (setFromMatrixPosition (fromArray m)) (position (objects s i)))
                  (Num 0.5))
       \<and> (\<forall>i. currentModel s = Some i
              \<and> distanceTo (setFromMatrixPosition (fromArray m)) (position (objects s i)) = Num 0.5
            \<longrightarrow> \<not> reticle_visible (state_of (render_v2 (Some fr) s)))"
proof -
  let ?s0 = "requestSources s"
  let ?s1 = "?s0\<lparr>reticle_matrix := fromArray m\<rparr>"
  have req: "hitTestSource ?s0 \<and> currentModel ?s0 = currentModel s \<and> objects ?s0 = objects s"
    using assms(2) by (simp add: requestSources_def)
  have logic: "reticleLogic sh fr ?s0 = Inr (?s1\<lparr>reticle_visible := sh ?s1 (fromArray m)\<rparr>)" for sh
    using req assms(3) by (simp add: reticleLogic_def Let_def)
  have v1: "state_of (render (Some fr) s) =
      state_of (dragLogic fr (?s1\<lparr>reticle_visible := shouldShowReticle ?s1 (fromArray m)\<rparr>))"
    using assms(1) by (simp add: render_split logic)
  have v2: "state_of (render_v2 (Some fr) s) =
      ?s1\<lparr>reticle_visible := shouldShowReticle_v2 ?s1 (fromArray m)\<rparr>"
    using assms(1) by (simp add: render_v2_def logic state_of_simps)
  have show1: "shouldShowReticle ?s1 (fromArray m) =
           (case currentModel s of
              None \<Rightarrow> True
            | Some i \<Rightarrow>
                js_gt (distanceTo (setFromMatrixPosition (fromArray m)) (position (objects s i)))
                  (Num 0.6))"
    using req by (simp add: shouldShowReticle_def Let_def split: option.splits)
  have show2: "shouldShowReticle_v2 ?s1 (fromArray m) =
           (case currentModel s of
              None \<Rightarrow> True
            | Some i \<Rightarrow>
                js_gt (distanceTo (setFromMatrixPosition (fromArray m)) (position (objects s i)))
                  (Num 0.5))"
    using req by (simp add: shouldShowReticle_v2_def Let_def split: option.splits)
  have m1: "reticle_matrix (state_of (render (Some fr) s)) = fromArray m"
    by (simp add: v1 dragLogic_reticle)
  have r1: "reticle_visible (state_of (render (Some fr) s)) = shouldShowReticle ?s1 (fromArray m)"
    by (simp add: v1 dragLogic_reticle)
  have m2: "reticle_matrix (state_of (render_v2 (Some fr) s)) = fromArray m"
    by (simp add: v2)
  have r2: "reticle_visible (state_of (render_v2 (Some fr) s)) = shouldShowReticle_v2 ?s1 (fromArray m)"
    by (simp add: v2)
  show ?thesis
    unfolding m1 r1 m2 r2 show1 show2
    by (auto simp: fromArray_16 js_gt_def)
qed

theorem reticle_visible_iff_far_witness:
  "isPresenting placed_at_origin \<and> hitTestSource placed_at_origin
   \<and> \<not> reticle_visible (state_of (render (Some (hit_frame 0.3 0 0)) placed_at_origin))
   \<and> \<not> reticle_visible (state_of (render (Some (hit_frame 0.6 0 0)) placed_at_origin))
   \<and> reticle_visible (state_of (render (Some (hit_frame 0.8 0 0)) placed_at_origin))
   \<and> reticle_visible (state_of (render (Some (hit_frame 0.6 0 0)) ready_to_place))
   \<and> reticle_matrix (state_of (render (Some (hit_frame 0.8 0 0)) placed_at_origin)) = poseAt 0.8 0 0"
proof -
  have p: "isPresenting placed_at_origin" and h: "hitTestSource placed_at_origin"
    and p': "isPresenting ready_to_place" and h': "hitTestSource ready_to_place"
    by (simp_all add: placed_at_origin_eq ready_to_place_eq)
  have fr: "hitTestResults (hit_frame a b c) = Some (poseAt a b c) # []" for a b c
    by (simp add: hit_frame_def)
  have obj: "currentModel placed_at_origin = Some 0
      \<and> position (objects placed_at_origin 0) = vec3 (Num 0) (Num 0) (Num 0)
      \<and> currentModel ready_to_place = None"
    by (simp add: placed_at_origin_eq ready_to_place_eq)
  from reticle_visible_iff_far [OF p h fr [of "0.3" 0 0]]
       reticle_visible_iff_far [OF p h fr [of "0.6" 0 0]]
       reticle_visible_iff_far [OF p h fr [of "0.8" 0 0]]
       reticle_visible_iff_far [OF p' h' fr [of "0.6" 0 0]]
       p h obj
  show ?thesis
    by (simp add: fromArray_poseAt position_poseAt distance_along_x js_gt_def)
qed

text \<open>
  C7. \<open>onSelect\<close> does nothing while \<open>isDragging\<close> is set, while the reticle is hidden, or
  before the template has loaded. Otherwise, with no object yet, it creates one clone of
  the template, puts it at the position of the reticle and adds it to the scene; with an
  object, it moves that object to the position of the reticle and creates nothing. After
  any sequence of events the scene holds at most one placed object.
\<close>

theorem select_places_or_reanchors:
  "(isDragging s \<or> \<not> reticle_visible s \<or> loadedGLTF s = None \<longrightarrow> onSelect s = s)
   \<and> (\<not> isDragging s \<and> reticle_visible s \<and> loadedGLTF s = Some g \<and> currentModel s = None \<longrightarrow>
        onSelect s =
          s\<lparr>currentModel := Some (nextId s),
            objects := (objects s)
              (nextId s := g\<lparr>position := setFromMatrixPosition (reticle_matrix s)\<rparr>),
            nextId := Suc (nextId s),
            scene := scene s @ [nextId s]\<rparr>)
   \<and> (\<not> isDragging s \<and> reticle_visible s \<and> loadedGLTF s = Some g \<and> currentModel s = Some i \<longrightarrow>
        onSelect s =
          s\<lparr>objects := (objects s)
              (i := (objects s i)\<lparr>position := setFromMatrixPosition (reticle_matrix s)\<rparr>)\<rparr>)
   \<and> one_placed (ar_run evs ar_init)
   \<and> length (scene (ar_run evs ar_init)) \<le> 1"
  using one_placed_run [of evs] one_placed_length [of "ar_run evs ar_init"]
  by (auto simp: onSelect_def set_position_def Let_def split: option.splits bool.splits)

lemma reticle_moved_eq:
  "reticle_moved = placed_at_origin\<lparr>reticle_matrix := poseAt 1 0 0\<rparr>"
  by (simp add: reticle_moved_def ar_run_def placed_at_origin_eq render_def requestSources_def
      reticleLogic_def dragLogic_def state_of_def hit_at_def hit_frame_def shouldShowReticle_def
      fromArray_poseAt position_poseAt distance_along_x js_gt_def Let_def)

theorem select_places_or_reanchors_witness:
  "\<not> isDragging ready_to_place \<and> reticle_visible ready_to_place
   \<and> loadedGLTF ready_to_place = Some default_object3d \<and> currentModel ready_to_place = None
   \<and> scene ready_to_place = []
   \<and> scene (onSelect ready_to_place) = [0]
   \<and> currentModel (onSelect ready_to_place) = Some 0
   \<and> position (objects (onSelect ready_to_place) 0) = vec3 (Num 0) (Num 0) (Num 0)
   \<and> currentModel reticle_moved = Some 0
   \<and> scene (onSelect reticle_moved) = [0]
   \<and> nextId (onSelect reticle_moved) = 1
   \<and> position (objects (onSelect reticle_moved) 0) = vec3 (Num 1) (Num 0) (Num 0)
   \<and> onSelect (ready_to_place\<lparr>isDragging := True\<rparr>) = ready_to_place\<lparr>isDragging := True\<rparr>"
proof -
  have pre: "\<not> isDragging ready_to_place \<and> reticle_visible ready_to_place
     \<and> loadedGLTF ready_to_place = Some default_object3d \<and> currentModel ready_to_place = None
     \<and> scene ready_to_place = [] \<and> nextId ready_to_place = 0
     \<and> reticle_matrix ready_to_place = poseAt 0 0 0"
    by (simp add: ready_to_place_eq)
  have moved: "\<not> isDragging reticle_moved \<and> reticle_visible reticle_moved
     \<and> loadedGLTF reticle_moved = Some default_object3d \<and> currentModel reticle_moved = Some 0
     \<and> scene reticle_moved = [0] \<and> nextId reticle_moved = 1
     \<and> reticle_matrix reticle_moved = poseAt 1 0 0"
    by (simp add: reticle_moved_eq placed_at_origin_eq)
  have first: "scene (onSelect ready_to_place) = [0]
     \<and> currentModel (onSelect ready_to_place) = Some 0
     \<and> position (objects (onSelect ready_to_place) 0) = vec3 (Num 0) (Num 0) (Num 0)"
    using select_places_or_reanchors [of ready_to_place default_object3d 0 "[]"] pre
    by (simp add: position_poseAt)
  have second: "scene (onSelect reticle_moved) = [0]
     \<and> nextId (onSelect reticle_moved) = 1
     \<and> position (objects (onSelect reticle_moved) 0) = vec3 (Num 1) (Num 0) (Num 0)"
    using select_places_or_reanchors [of reticle_moved default_object3d 0 "[]"] moved
    by (simp add: position_poseAt)
  have third: "onSelect (ready_to_place\<lparr>isDragging := True\<rparr>) = ready_to_place\<lparr>isDragging := True\<rparr>"
    using select_places_or_reanchors [of "ready_to_place\<lparr>isDragging := True\<rparr>" default_object3d 0 "[]"]
    by simp
  from pre moved first second third show ?thesis
    by simp
qed

lemma select_after_drag_release_ignored:
  "isDragging s \<Longrightarrow> onSelect (touchend s) = touchend s"
  by (simp add: touchend_def onSelect_def)

lemma pinch_released_facts:
  "pendingTimeouts pinch_released = 2 \<and> isTwoFinger pinch_released
   \<and> \<not> isDragging pinch_released \<and> reticle_visible pinch_released
   \<and> reticle_matrix pinch_released = poseAt 1 0 0
   \<and> loadedGLTF pinch_released = Some default_object3d
   \<and> currentModel pinch_released = Some 0
   \<and> position (objects pinch_released 0) = vec3 (Num 0) (Num 0) (Num 0)"
  by (simp add: pinch_released_def ar_run_def placed_at_origin_eq render_def requestSources_def
      reticleLogic_def dragLogic_def state_of_def hit_at_def hit_frame_def shouldShowReticle_def
      fromArray_poseAt position_poseAt distance_along_x js_gt_def touchstart_def touchmove_def
      touchend_def finger_def Let_def)

text \<open>
  C8. A \<open>select\<close> that arrives after the touches of a two-finger gesture have ended and
  before the timer of 100 ms has run is not ignored: the two-finger branch of
  \<open>touchstart\<close> clears \<open>isDragging\<close>, the only flag that \<open>onSelect\<close> reads. Here the object
  stands at the origin, the reticle is shown one metre away, a pinch is made and released
  (both timers still pending), and the \<open>select\<close> moves the object to the reticle.
\<close>

theorem select_after_pinch_release_reanchors:
  "pendingTimeouts pinch_released = 2
   \<and> position (objects pinch_released 0) = vec3 (Num 0) (Num 0) (Num 0)
   \<and> position (objects (ar_step Select pinch_released) 0) = vec3 (Num 1) (Num 0) (Num 0)
   \<and> ar_step Select pinch_released \<noteq> pinch_released"
proof -
  have moved: "position (objects (ar_step Select pinch_released) 0) = vec3 (Num 1) (Num 0) (Num 0)"
    using pinch_released_facts
    by (simp add: onSelect_def set_position_def position_poseAt)
  have "position (objects (ar_step Select pinch_released) 0) \<noteq> position (objects pinch_released 0)"
    using moved pinch_released_facts by (simp add: vec3_def)
  then have "ar_step Select pinch_released \<noteq> pinch_released"
    by auto
  with moved pinch_released_facts show ?thesis by simp
qed

lemma drag_release_debounced:
  "pendingTimeouts drag_released = 1 \<and> reticle_visible drag_released
   \<and> ar_step Select drag_released = drag_released"
  by (simp add: drag_released_def ar_run_def placed_at_origin_eq render_def requestSources_def
      reticleLogic_def dragLogic_def state_of_def hit_at_def hit_frame_def shouldShowReticle_def
      fromArray_poseAt position_poseAt distance_along_x js_gt_def touchstart_def
      touchend_def finger_def onSelect_def Let_def)


end
